theory Spec2Isabelle
  imports Complex_Main
begin

section \<open>The AR controller of \<open>src/final/app.js\<close>\<close>

text \<open>
  The program is a set of event handlers over shared mutable state: the global
  \<open>selectedModel\<close>, the global \<open>window.customModel\<close>, the fields of the single
  \<open>App\<close> instance, and the parts of the document and of the XR session that the
  handlers write (canvases appended to the body, CSS classes of the body, listeners,
  pending frame callbacks, asset loads in flight). JavaScript runs one handler at a
  time, so every handler is a function from state to state, and an execution is a list
  of events folded over the state. Calls into the platform (console, XR session,
  three.js, DOM) are recorded in order in the field \<open>trace\<close>.
\<close>

subsection \<open>Scene-graph values\<close>

datatype vec3 = Vector3 (vx: real) (vy: real) (vz: real)

text \<open>A \<open>THREE.Object3D\<close>, as far as the program reads or writes it.\<close>

record object3d =
  name :: string
  position :: vec3
  visible :: bool

text \<open>
  \<open>scene.children\<close>. The reticle is one object, held in \<open>this.reticle\<close> and added to
  the scene by \<open>setupThreeJs\<close>: the child list refers to it (\<open>ReticleRef\<close>), so that a
  write to \<open>this.reticle\<close> is seen through the scene. All other children are owned by
  the list.
\<close>

datatype child = ReticleRef | Obj object3d

text \<open>What \<open>GLTFLoader\<close> hands to the success callback: \<open>gltf.scene\<close> may be undefined.\<close>

datatype gltf = GLTF (gltf_scene: "object3d option")

datatype load_outcome = Loaded gltf | Failed

record perspective_camera =
  matrixAutoUpdate :: bool
  cam_matrix :: "real list"
  cam_projectionMatrix :: "real list"

subsection \<open>What the platform delivers\<close>

text \<open>The outcome of \<open>navigator.xr.isSessionSupported\<close> in the start-up probe.\<close>

datatype probe_outcome =
    XRAbsent            \<comment> \<open>\<open>navigator.xr\<close> is undefined\<close>
  | QueryAbsent         \<comment> \<open>\<open>navigator.xr.isSessionSupported\<close> is undefined\<close>
  | Resolved bool       \<comment> \<open>the promise resolves to this value\<close>
  | Rejected            \<comment> \<open>the promise rejects\<close>

text \<open>
  What each platform call of one activation does. \<open>createLitScene\<close>, \<open>newReticle\<close> and
  \<open>newPerspectiveCamera\<close> are the values built by \<open>DemoUtils.createLitScene()\<close>,
  \<open>new Reticle()\<close> and \<open>new THREE.PerspectiveCamera()\<close>, which are not part of the
  source file.
\<close>

record platform =
  sessionGranted :: bool          \<comment> \<open>\<open>requestSession\<close> resolves (else it rejects)\<close>
  contextCreated :: bool          \<comment> \<open>\<open>canvas.getContext\<close> returns a context (else null)\<close>
  layerCreated :: bool            \<comment> \<open>\<open>new XRWebGLLayer\<close> returns (else it throws)\<close>
  rendererCreated :: bool         \<comment> \<open>\<open>new THREE.WebGLRenderer\<close> returns (else it throws)\<close>
  localSpaceGranted :: bool       \<comment> \<open>\<open>requestReferenceSpace('local')\<close> resolves\<close>
  viewerSpaceGranted :: bool      \<comment> \<open>\<open>requestReferenceSpace('viewer')\<close> resolves\<close>
  hitTestSourceGranted :: bool    \<comment> \<open>\<open>requestHitTestSource\<close> resolves\<close>
  createLitScene :: "object3d list"
  newReticle :: object3d
  newPerspectiveCamera :: perspective_camera

text \<open>\<open>pose.views[0]\<close> of a viewer pose.\<close>

record xrview =
  matrix :: "real list"
  projectionMatrix :: "real list"
  viewport :: "nat \<times> nat"

text \<open>
  An \<open>XRFrame\<close>: what \<open>getViewerPose\<close> returns (null when tracking is lost) and what
  \<open>getHitTestResults\<close> returns, each result given by the position of its pose in the
  local reference space.
\<close>

record xrframe =
  viewerPose :: "xrview option"
  hitTestResults :: "vec3 list"

subsection \<open>Effects and state\<close>

datatype error = SessionError | LayerError | RendererError | SpaceError | HitTestError

datatype effect =
    Log string
  | LogException error
  | ConsoleError string
  | Uncaught
  | NoXRDevice
  | IsSessionSupported
  | AddClickListener
  | RequestSession
  | AppendCanvas
  | GetContext
  | UpdateRenderState
  | RequestReferenceSpace string
  | RequestHitTestSource
  | RequestAnimationFrame
  | AddSelectListener
  | LoaderLoad string
  | BindFramebuffer
  | SetFramebuffer
  | GetViewerPose
  | SetSize nat nat
  | CameraUpdate
  | GetHitTestResults
  | ReticleUpdate
  | Render
  | SceneAdd child

record state =
  selectedModel :: string
  customModel :: "object3d option"
  enterArWired :: bool
  bodyCanvases :: nat
  bodyClasses :: "string list"
  modelPlaced :: bool
  xrSession :: bool
  canvas :: bool
  gl :: bool
  baseLayer :: bool
  renderer :: bool
  rendererSize :: "(nat \<times> nat) option"
  scene :: "child list option"
  reticle :: "object3d option"
  camera :: "perspective_camera option"
  localReferenceSpace :: bool
  viewerSpace :: bool
  hitTestSource :: bool
  stabilized :: bool
  frameRequests :: nat
  selectWired :: bool
  loads :: "string list"
  trace :: "effect list"

text \<open>
  The state once the script has run to its end (line 171) and before the probe's
  promise settles: \<open>selectedModel\<close> holds the default, \<open>new App()\<close> has set
  \<open>modelPlaced\<close> to false, every other field of the instance is undefined.
\<close>

definition initial :: state where
  "initial = \<lparr> selectedModel = ''../assets/scene.gltf'', customModel = None,
     enterArWired = False, bodyCanvases = 0, bodyClasses = [], modelPlaced = False,
     xrSession = False, canvas = False, gl = False, baseLayer = False,
     renderer = False,
     rendererSize = None, scene = None, reticle = None, camera = None,
     localReferenceSpace = False, viewerSpace = False, hitTestSource = False,
     stabilized = False, frameRequests = 0, selectWired = False, loads = [],
     trace = [] \<rparr>"

definition emit :: "effect \<Rightarrow> state \<Rightarrow> state" where
  "emit e s = s\<lparr>trace := trace s @ [e]\<rparr>"

definition consoleLog :: "string \<Rightarrow> state \<Rightarrow> state" where
  "consoleLog m s = emit (Log m) s"

text \<open>
  Modelled from the spec: \<open>onNoXRDevice\<close> is called by the source file and defined
  outside it. It is the single no-device error path, which displays a user-facing
  fallback and returns nothing that is consumed: the model records its invocation and
  lets it write none of the fields below.
\<close>

definition onNoXRDevice :: "state \<Rightarrow> state" where
  "onNoXRDevice s = emit NoXRDevice s"

text \<open>
  \<open>document.body.classList.add\<close>: the token is appended to the class list, unless
  the list holds it already.
\<close>

definition classListAdd :: "string \<Rightarrow> string list \<Rightarrow> string list" where
  "classListAdd c cs = (if c \<in> set cs then cs else cs @ [c])"

subsection \<open>The capability probe (lines 20-27)\<close>

text \<open>
  \<open>navigator.xr && navigator.xr.isSessionSupported && await ...\<close>: the query is only
  called when both are defined. A rejection of the awaited promise leaves the async
  function at the \<open>await\<close>: there is no \<open>try\<close>, so neither branch of the \<open>if\<close> runs.
\<close>

definition probe :: "probe_outcome \<Rightarrow> state \<Rightarrow> state" where
  "probe out s =
     (case out of
        XRAbsent \<Rightarrow> onNoXRDevice s
      | QueryAbsent \<Rightarrow> onNoXRDevice s
      | Resolved isArSessionSupported \<Rightarrow>
          (let s1 = emit IsSessionSupported s in
           if isArSessionSupported
           then emit AddClickListener (s1\<lparr>enterArWired := True\<rparr>)
           else onNoXRDevice s1)
      | Rejected \<Rightarrow> emit Uncaught (emit IsSessionSupported s))"

subsection \<open>The model selector (lines 29-39)\<close>

datatype button = Model1 | Model2

definition model1_click :: "state \<Rightarrow> state" where
  "model1_click s = consoleLog ''Selected Model 1'' (s\<lparr>selectedModel := ''../assets/scene.gltf''\<rparr>)"

definition model2_click :: "state \<Rightarrow> state" where
  "model2_click s = consoleLog ''Selected Model 2'' (s\<lparr>selectedModel := ''../assets/sceneD.gltf''\<rparr>)"

fun click :: "button \<Rightarrow> state \<Rightarrow> state" where
  "click Model1 s = model1_click s"
| "click Model2 s = model2_click s"

subsection \<open>Activation (lines 46-89 and 151-168)\<close>

text \<open>
  A function that can throw returns \<open>Inl (e, s)\<close>, the exception and the state at the
  throw (JavaScript undoes nothing), or \<open>Inr s\<close>. The \<open>await\<close>s of \<open>activateXR\<close> and
  \<open>onSessionStarted\<close> are run to completion: the handlers that can run in between
  (the two selection buttons) write \<open>selectedModel\<close> only, which activation never
  reads, and frames and taps are not delivered before the last line of
  \<open>onSessionStarted\<close> has registered them. The field \<open>baseLayer\<close> stands for
  \<open>this.xrSession.renderState.baseLayer\<close>: a session just granted replaces
  \<open>this.xrSession\<close> (line 50) and has no base layer until \<open>updateRenderState\<close>
  gives it one (line 74).
\<close>

definition requestAnimationFrame :: "state \<Rightarrow> state" where
  "requestAnimationFrame s = emit RequestAnimationFrame (s\<lparr>frameRequests := frameRequests s + 1\<rparr>)"

definition createXRCanvas :: "platform \<Rightarrow> state \<Rightarrow> (error \<times> state) + state" where
  "createXRCanvas p s =
     (let s1 = consoleLog ''Creating XR canvas...'' s;
          s2 = emit AppendCanvas (s1\<lparr>canvas := True, bodyCanvases := bodyCanvases s1 + 1\<rparr>);
          s3 = emit GetContext (s2\<lparr>gl := contextCreated p\<rparr>);
          s4 = consoleLog ''XR canvas created successfully.'' s3
      in if gl s4 \<and> layerCreated p
         then Inr (emit UpdateRenderState (s4\<lparr>baseLayer := True\<rparr>))
         else Inl (LayerError, s4))"

definition setupThreeJs :: "platform \<Rightarrow> state \<Rightarrow> (error \<times> state) + state" where
  "setupThreeJs p s =
     (let s1 = consoleLog ''Setting up Three.js...'' s
      in if \<not> rendererCreated p then Inl (RendererError, s1)
         else
           (let s2 = s1\<lparr>renderer := True\<rparr>;
                s3 = s2\<lparr>scene := Some (map Obj (createLitScene p))\<rparr>;
                s4 = s3\<lparr>reticle := Some (newReticle p)\<rparr>;
                s5 = emit (SceneAdd ReticleRef)
                       (s4\<lparr>scene := Some (map Obj (createLitScene p) @ [ReticleRef])\<rparr>);
                s6 = s5\<lparr>camera := Some ((newPerspectiveCamera p)\<lparr>matrixAutoUpdate := False\<rparr>)\<rparr>
            in Inr (consoleLog ''Three.js setup completed.'' s6)))"

definition onSessionStarted :: "platform \<Rightarrow> state \<Rightarrow> (error \<times> state) + state" where
  "onSessionStarted p s =
     (let s1 = consoleLog ''Starting XR session...'' s;
          s2 = s1\<lparr>bodyClasses := classListAdd ''ar'' (bodyClasses s1)\<rparr>
      in case setupThreeJs p s2 of
           Inl x \<Rightarrow> Inl x
         | Inr s3 \<Rightarrow>
             (let s4 = emit (RequestReferenceSpace ''local'') s3
              in if \<not> localSpaceGranted p then Inl (SpaceError, s4)
                 else
                   (let s5 = emit (RequestReferenceSpace ''viewer'') (s4\<lparr>localReferenceSpace := True\<rparr>)
                    in if \<not> viewerSpaceGranted p then Inl (SpaceError, s5)
                       else
                         (let s6 = emit RequestHitTestSource (s5\<lparr>viewerSpace := True\<rparr>)
                          in if \<not> hitTestSourceGranted p then Inl (HitTestError, s6)
                             else
                               (let s7 = requestAnimationFrame (s6\<lparr>hitTestSource := True\<rparr>);
                                    s8 = emit AddSelectListener (s7\<lparr>selectWired := True\<rparr>)
                                in Inr (consoleLog ''XR session started successfully.'' s8))))))"

definition activateXR_try :: "platform \<Rightarrow> state \<Rightarrow> (error \<times> state) + state" where
  "activateXR_try p s =
     (let s1 = emit RequestSession (consoleLog ''Attempting to initialize WebXR session...'' s)
      in if \<not> sessionGranted p then Inl (SessionError, s1)
         else
           (let s2 = consoleLog ''WebXR session initialized successfully.''
                       (s1\<lparr>xrSession := True, baseLayer := False\<rparr>)
            in case createXRCanvas p s2 of
                 Inl x \<Rightarrow> Inl x
               | Inr s3 \<Rightarrow> onSessionStarted p s3))"

definition activateXR :: "platform \<Rightarrow> state \<Rightarrow> state" where
  "activateXR p s =
     (case activateXR_try p s of
        Inl (e, s') \<Rightarrow> onNoXRDevice (emit (LogException e) s')
      | Inr s' \<Rightarrow> s')"

subsection \<open>Placement (lines 91-120)\<close>

definition onSelect :: "state \<Rightarrow> state" where
  "onSelect s =
     (let s1 = consoleLog ''Tapped!'' s
      in if modelPlaced s1 then consoleLog ''Model already placed, ignoring tap.'' s1
         else emit (LoaderLoad (selectedModel s1)) (s1\<lparr>loads := loads s1 @ [selectedModel s1]\<rparr>))"

definition setY :: "real \<Rightarrow> object3d \<Rightarrow> object3d" where
  "setY v ob = ob\<lparr>position := Vector3 (vx (position ob)) v (vz (position ob))\<rparr>"

text \<open>
  \<open>scene.children.find(c => c.name === 'shadowMesh')\<close> followed by the write to
  \<open>position.y\<close> of the child found: the first child of that name, which may be the
  reticle. \<open>None\<close> when no child has the name.
\<close>

fun alignShadowMesh :: "real \<Rightarrow> object3d \<Rightarrow> child list \<Rightarrow> (object3d \<times> child list) option" where
  "alignShadowMesh v r [] = None"
| "alignShadowMesh v r (ReticleRef # cs) =
     (if name r = ''shadowMesh'' then Some (setY v r, ReticleRef # cs)
      else map_option (\<lambda>(r', cs'). (r', ReticleRef # cs')) (alignShadowMesh v r cs))"
| "alignShadowMesh v r (Obj ob # cs) =
     (if name ob = ''shadowMesh'' then Some (r, Obj (setY v ob) # cs)
      else map_option (\<lambda>(r', cs'). (r', Obj ob # cs')) (alignShadowMesh v r cs))"

text \<open>The success callback of \<open>loader.load\<close> (lines 99-116).\<close>

definition onLoad :: "gltf \<Rightarrow> state \<Rightarrow> state" where
  "onLoad g s =
     (let s1 = consoleLog ''Model loaded successfully:'' s;
          s2 = consoleLog ''Custom model set:'' (s1\<lparr>customModel := gltf_scene g\<rparr>)
      in case customModel s2 of
           None \<Rightarrow> s2
         | Some m \<Rightarrow>
             if modelPlaced s2 then s2
             else
               (let s3 = consoleLog ''Placing the model for the first time...'' s2
                in case (reticle s3, scene s3) of
                     (Some r, Some sc) \<Rightarrow>
                       (let clone = m\<lparr>position := position r\<rparr>;
                            s4 = emit (SceneAdd (Obj clone)) (s3\<lparr>scene := Some (sc @ [Obj clone])\<rparr>);
                            s5 = consoleLog ''Model placed at:'' s4;
                            s6 = (case alignShadowMesh (vy (position clone)) r (sc @ [Obj clone]) of
                                    None \<Rightarrow> s5
                                  | Some (r', sc') \<Rightarrow>
                                      consoleLog ''Shadow mesh updated.'' (s5\<lparr>reticle := Some r', scene := Some sc'\<rparr>))
                        in s6\<lparr>modelPlaced := True\<rparr>)
                   | _ \<Rightarrow> emit Uncaught s3))"

text \<open>The error callback of \<open>loader.load\<close> (lines 117-119).\<close>

definition onLoadError :: "state \<Rightarrow> state" where
  "onLoadError s = emit (ConsoleError ''An error occurred loading the model:'') s"

subsection \<open>The frame callback (lines 122-149)\<close>

text \<open>
  A field that is still undefined (or null) when the callback dereferences it throws
  a \<open>TypeError\<close> out of the callback (\<open>Uncaught\<close>), at the line of the access:
  \<open>xrSession\<close> at line 124, the base layer and \<open>gl\<close> at lines 125-126, the renderer
  at line 127, the camera at line 133, the reticle at line 143. A hit-test result is
  taken with the pose that \<open>getPose\<close> returns for it.
\<close>

definition onXRFrame :: "state \<Rightarrow> xrframe \<Rightarrow> state" where
  "onXRFrame s frame =
     (let s1 = consoleLog ''XR Frame'' s
      in if \<not> xrSession s1 then emit Uncaught s1
         else
           (let s2 = requestAnimationFrame s1
            in if \<not> baseLayer s2 \<or> \<not> gl s2 then emit Uncaught s2
               else
                 (let s3 = emit BindFramebuffer s2
                  in if \<not> renderer s3 then emit Uncaught s3
                     else
                       (let s4 = emit SetFramebuffer s3;
                            s5 = emit GetViewerPose s4
                        in case viewerPose frame of
                             None \<Rightarrow> s5
                           | Some view \<Rightarrow>
                               (let s6 = emit (SetSize (fst (viewport view)) (snd (viewport view)))
                                           (s5\<lparr>rendererSize := Some (viewport view)\<rparr>)
                                in case camera s6 of
                                     None \<Rightarrow> emit Uncaught s6
                                   | Some cam \<Rightarrow>
                                       (let s7 = emit CameraUpdate
                                                   (s6\<lparr>camera := Some (cam\<lparr>cam_matrix := matrix view,
                                                            cam_projectionMatrix := projectionMatrix view\<rparr>)\<rparr>);
                                            s8 = emit GetHitTestResults s7;
                                            s9 = (if \<not> stabilized s8 \<and> length (hitTestResults frame) > 0
                                                  then s8\<lparr>stabilized := True,
                                                         bodyClasses := classListAdd ''stabilized'' (bodyClasses s8)\<rparr>
                                                  else s8)
                                        in case hitTestResults frame of
                                             [] \<Rightarrow> emit Render s9
                                           | hit # _ \<Rightarrow>
                                               (case reticle s9 of
                                                  None \<Rightarrow> emit Uncaught s9
                                                | Some r \<Rightarrow>
                                                    emit Render
                                                      (emit ReticleUpdate
                                                         (s9\<lparr>reticle := Some (r\<lparr>visible := True, position := hit\<rparr>)\<rparr>)))))))))"

subsection \<open>Executions\<close>

text \<open>
  An event is delivered to a handler only where the program has registered it: a
  click on \<open>enter-ar\<close> when the probe has wired it, a \<open>select\<close> after
  \<open>onSessionStarted\<close>, a frame when a callback is pending (delivery consumes the
  registration), a load result for a load in flight (which then is no longer in flight).
\<close>

datatype event =
    EnterArClick platform
  | ModelClick button
  | Select
  | LoadDone nat load_outcome
  | XRFrame xrframe

definition dropAt :: "nat \<Rightarrow> 'a list \<Rightarrow> 'a list" where
  "dropAt k xs = take k xs @ drop (Suc k) xs"

fun step :: "state \<Rightarrow> event \<Rightarrow> state" where
  "step s (EnterArClick p) = (if enterArWired s then activateXR p s else s)"
| "step s (ModelClick b) = click b s"
| "step s Select = (if selectWired s then onSelect s else s)"
| "step s (LoadDone k out) =
     (if k < length (loads s)
      then (case out of
              Loaded g \<Rightarrow> onLoad g (s\<lparr>loads := dropAt k (loads s)\<rparr>)
            | Failed \<Rightarrow> onLoadError (s\<lparr>loads := dropAt k (loads s)\<rparr>))
      else s)"
| "step s (XRFrame frame) =
     (if 0 < frameRequests s then onXRFrame (s\<lparr>frameRequests := frameRequests s - 1\<rparr>) frame else s)"

definition run :: "state \<Rightarrow> event list \<Rightarrow> state" where
  "run s es = foldl step s es"

section \<open>Observations on states and executions\<close>

text \<open>A placement is a clone handed to \<open>scene.add\<close> (line 108).\<close>

fun isPlacement :: "effect \<Rightarrow> bool" where
  "isPlacement (SceneAdd (Obj ob)) = True"
| "isPlacement e = False"

definition placements :: "state \<Rightarrow> nat" where
  "placements s = length (filter isPlacement (trace s))"

definition fallbacks :: "state \<Rightarrow> nat" where
  "fallbacks s = count_list (trace s) NoXRDevice"

definition sessionRequests :: "state \<Rightarrow> nat" where
  "sessionRequests s = count_list (trace s) RequestSession"

text \<open>
  The fields that \<open>createXRCanvas\<close> and \<open>setupThreeJs\<close> assign and that the frame
  callback and the load callback dereference.
\<close>

definition started :: "state \<Rightarrow> bool" where
  "started s =
     (xrSession s \<and> baseLayer s \<and> gl s \<and> renderer s \<and>
      camera s \<noteq> None \<and> reticle s \<noteq> None \<and> scene s \<noteq> None)"

definition everyStepGranted :: "platform \<Rightarrow> bool" where
  "everyStepGranted p =
     (sessionGranted p \<and> contextCreated p \<and> layerCreated p \<and> rendererCreated p \<and>
      localSpaceGranted p \<and> viewerSpaceGranted p \<and> hitTestSourceGranted p)"



text \<open>
  The asset reference each selection button stands for in the user interface
  (model 1 and model 2), against which the listeners of lines 31-39 are compared.
\<close>

fun boundAsset :: "button \<Rightarrow> string" where
  "boundAsset Model1 = ''../assets/scene.gltf''"
| "boundAsset Model2 = ''../assets/sceneD.gltf''"

text \<open>The button of the last selection click of an execution, if it has one.\<close>

fun lastClick :: "event list \<Rightarrow> button option" where
  "lastClick [] = None"
| "lastClick (e # es) =
     (case lastClick es of
        Some b \<Rightarrow> Some b
      | None \<Rightarrow> (case e of ModelClick b \<Rightarrow> Some b | _ \<Rightarrow> None))"

text \<open>What \<open>n\<close> taps write to the console once the model is placed.\<close>

definition tapLog :: "nat \<Rightarrow> effect list" where
  "tapLog n = concat (replicate n [Log ''Tapped!'', Log ''Model already placed, ignoring tap.''])"

text \<open>
  The loader's contract: the result delivered for the load in flight at index \<open>k\<close> is
  the loader's answer for the reference that load was started with.
\<close>

definition deliver :: "(string \<Rightarrow> load_outcome) \<Rightarrow> nat \<Rightarrow> state \<Rightarrow> state" where
  "deliver loader k s =
     (if k < length (loads s) then step s (LoadDone k (loader (loads s ! k))) else s)"

section \<open>A concrete session\<close>

text \<open>
  A platform on which every step of activation succeeds, with a lit scene that holds
  the shadow mesh, and the states and frames built from it. They are the inputs at
  which the properties below are evaluated.
\<close>

definition demoPlatform :: platform where
  "demoPlatform = \<lparr> sessionGranted = True, contextCreated = True, layerCreated = True,
     rendererCreated = True, localSpaceGranted = True, viewerSpaceGranted = True,
     hitTestSourceGranted = True,
     createLitScene = [\<lparr> name = ''shadowMesh'', position = Vector3 0 0 0, visible = True \<rparr>],
     newReticle = \<lparr> name = [], position = Vector3 0 0 0, visible = False \<rparr>,
     newPerspectiveCamera = \<lparr> matrixAutoUpdate = True, cam_matrix = [], cam_projectionMatrix = [] \<rparr> \<rparr>"

definition noContextPlatform :: platform where
  "noContextPlatform = demoPlatform\<lparr>contextCreated := False\<rparr>"

definition deniedPlatform :: platform where
  "deniedPlatform = demoPlatform\<lparr>sessionGranted := False\<rparr>"

definition booted :: state where
  "booted = probe (Resolved True) initial"

definition demoSession :: state where
  "demoSession = run booted [EnterArClick demoPlatform]"

definition demoFrame :: xrframe where
  "demoFrame = \<lparr> viewerPose = Some \<lparr> matrix = [], projectionMatrix = [], viewport = (640, 480) \<rparr>,
                  hitTestResults = [Vector3 0 0 (- 1)] \<rparr>"

definition emptyFrame :: xrframe where
  "emptyFrame = demoFrame\<lparr>hitTestResults := []\<rparr>"

definition lostFrame :: xrframe where
  "lostFrame = demoFrame\<lparr>viewerPose := None\<rparr>"

definition demoLoader :: "string \<Rightarrow> load_outcome" where
  "demoLoader url =
     (if url = ''../assets/scene.gltf''
      then Loaded (GLTF (Some \<lparr> name = ''chair'', position = Vector3 0 0 0, visible = True \<rparr>))
      else if url = ''../assets/sceneD.gltf''
      then Loaded (GLTF (Some \<lparr> name = ''table'', position = Vector3 0 0 0, visible = True \<rparr>))
      else Failed)"

text \<open>
  The second model is selected, a frame hits a surface at \<open>(0, 0, -1)\<close>, the user
  taps, the load resolves.
\<close>

definition placedSession :: state where
  "placedSession =
     run demoSession [ModelClick Model2, XRFrame demoFrame, Select,
                      LoadDone 0 (demoLoader ''../assets/sceneD.gltf'')]"

section \<open>Executions and frame conditions of the handlers\<close>

lemmas handler_defs = emit_def consoleLog_def onNoXRDevice_def requestAnimationFrame_def

lemmas activation_defs = activateXR_def activateXR_try_def createXRCanvas_def
  onSessionStarted_def setupThreeJs_def

lemmas count_defs = fallbacks_def sessionRequests_def placements_def

lemmas demo_defs = demoPlatform_def demoFrame_def demoLoader_def booted_def probe_def
  initial_def run_def activation_defs handler_defs onSelect_def onLoad_def onLoadError_def
  onXRFrame_def model1_click_def model2_click_def dropAt_def setY_def classListAdd_def Let_def

lemma run_Nil: "run s [] = s"
  by (simp add: run_def)

lemma run_Cons: "run s (e # es) = run (step s e) es"
  by (simp add: run_def)

lemma run_append: "run s (es @ es') = run (run s es) es'"
  by (simp add: run_def)

subsection \<open>The placement flag\<close>

lemma modelPlaced_activateXR: "modelPlaced (activateXR p s) = modelPlaced s"
  by (simp add: activation_defs handler_defs Let_def split: sum.splits prod.splits)

lemma modelPlaced_onXRFrame: "modelPlaced (onXRFrame s f) = modelPlaced s"
  by (simp add: onXRFrame_def handler_defs Let_def split: option.splits list.splits)

lemma modelPlaced_onLoad: "modelPlaced s \<Longrightarrow> modelPlaced (onLoad g s)"
  by (simp add: onLoad_def handler_defs Let_def split: option.splits)

lemma modelPlaced_click: "modelPlaced (click b s) = modelPlaced s"
  by (cases b) (simp_all add: model1_click_def model2_click_def handler_defs)

lemma modelPlaced_onSelect: "modelPlaced (onSelect s) = modelPlaced s"
  by (simp add: onSelect_def handler_defs Let_def)

lemma modelPlaced_step: "modelPlaced s \<Longrightarrow> modelPlaced (step s e)"
  by (cases e)
    (simp_all add: modelPlaced_activateXR modelPlaced_onXRFrame modelPlaced_onLoad
      modelPlaced_click modelPlaced_onSelect onLoadError_def handler_defs
      split: load_outcome.splits)

lemma modelPlaced_run: "modelPlaced s \<Longrightarrow> modelPlaced (run s es)"
  by (induction es arbitrary: s) (simp_all add: run_Nil run_Cons modelPlaced_step)

lemma modelPlaced_clicks: "modelPlaced (run s (map ModelClick cs)) = modelPlaced s"
  by (induction cs arbitrary: s) (simp_all add: run_Nil run_Cons modelPlaced_click)

lemma onSelect_placed:
  "modelPlaced s \<Longrightarrow>
   onSelect s = s\<lparr>trace := trace s @ [Log ''Tapped!'', Log ''Model already placed, ignoring tap.'']\<rparr>"
  by (simp add: onSelect_def handler_defs Let_def)

lemma onSelect_unplaced:
  "\<not> modelPlaced s \<Longrightarrow>
   onSelect s = s\<lparr>loads := loads s @ [selectedModel s],
                  trace := trace s @ [Log ''Tapped!'', LoaderLoad (selectedModel s)]\<rparr>"
  by (simp add: onSelect_def handler_defs Let_def)

lemma taps_placed:
  "modelPlaced s \<Longrightarrow> selectWired s \<Longrightarrow>
   run s (replicate n Select) = s\<lparr>trace := trace s @ tapLog n\<rparr>"
proof (induction n arbitrary: s)
  case 0
  then show ?case by (simp add: run_Nil tapLog_def)
next
  case (Suc n)
  let ?s' = "s\<lparr>trace := trace s @ [Log ''Tapped!'', Log ''Model already placed, ignoring tap.'']\<rparr>"
  have st: "step s Select = ?s'"
    using Suc.prems by (simp add: onSelect_placed)
  have "run ?s' (replicate n Select) = ?s'\<lparr>trace := trace ?s' @ tapLog n\<rparr>"
    using Suc.prems by (intro Suc.IH) simp_all
  then show ?case
    by (simp add: run_Cons st tapLog_def del: step.simps)
qed

lemma taps_placed_any:
  "modelPlaced s \<Longrightarrow>
   run s (replicate n Select) = s\<lparr>trace := trace s @ (if selectWired s then tapLog n else [])\<rparr>"
proof (cases "selectWired s")
  case True
  assume "modelPlaced s"
  then show ?thesis using True by (simp add: taps_placed)
next
  case False
  have "run s (replicate n Select) = s"
    using False by (induction n) (simp_all add: run_Nil run_Cons)
  then show ?thesis using False by simp
qed

subsection \<open>Placements\<close>

lemma placements_activateXR: "placements (activateXR p s) = placements s"
  by (simp add: placements_def activation_defs handler_defs Let_def split: sum.splits prod.splits)

lemma placements_onXRFrame: "placements (onXRFrame s f) = placements s"
  by (simp add: placements_def onXRFrame_def handler_defs Let_def split: option.splits list.splits)

lemma placements_click: "placements (click b s) = placements s"
  by (cases b) (simp_all add: placements_def model1_click_def model2_click_def handler_defs)

lemma placements_onSelect: "placements (onSelect s) = placements s"
  by (simp add: placements_def onSelect_def handler_defs Let_def)

lemma placements_onLoad:
  "placements (onLoad g s) = placements s \<or>
   (\<not> modelPlaced s \<and> modelPlaced (onLoad g s) \<and> placements (onLoad g s) = Suc (placements s))"
  by (simp add: placements_def onLoad_def handler_defs Let_def split: option.splits prod.splits)

lemma placements_step:
  "placements (step s e) = placements s \<or>
   (\<not> modelPlaced s \<and> modelPlaced (step s e) \<and> placements (step s e) = Suc (placements s))"
proof (cases e)
  case (LoadDone k out)
  show ?thesis
  proof (cases out)
    case (Loaded g)
    show ?thesis
      using placements_onLoad [of g "s\<lparr>loads := dropAt k (loads s)\<rparr>"]
      by (simp add: LoadDone Loaded placements_def)
  next
    case Failed
    then show ?thesis
      by (simp add: LoadDone placements_def onLoadError_def handler_defs)
  qed
qed (simp_all add: placements_activateXR placements_onXRFrame placements_click
      placements_onSelect, simp add: placements_def)

lemma placements_run:
  "placements (run s es) \<le> placements s + (if modelPlaced s then 0 else 1)"
proof (induction es arbitrary: s)
  case Nil
  show ?case by (simp add: run_Nil)
next
  case (Cons e es)
  have ih: "placements (run (step s e) es)
      \<le> placements (step s e) + (if modelPlaced (step s e) then 0 else 1)"
    by (rule Cons.IH)
  show ?case
    using ih placements_step [of s e] modelPlaced_step [of s e]
    by (auto simp add: run_Cons simp del: step.simps split: if_splits)
qed

subsection \<open>Activation\<close>

lemma activateXR_rejected:
  "\<not> sessionGranted p \<Longrightarrow>
   activateXR p s = s\<lparr>trace := trace s @
     [Log ''Attempting to initialize WebXR session...'', RequestSession,
      LogException SessionError, NoXRDevice]\<rparr>"
  by (simp add: activateXR_def activateXR_try_def handler_defs Let_def)

lemma activateXR_try_fails: "isl (activateXR_try p s) = (\<not> everyStepGranted p)"
  by (auto simp add: everyStepGranted_def activation_defs handler_defs Let_def split: sum.splits)

lemma fallback_activateXR:
  "count_list (trace (activateXR p s)) NoXRDevice =
   count_list (trace s) NoXRDevice + (if everyStepGranted p then 0 else 1)"
  by (simp add: everyStepGranted_def activation_defs handler_defs Let_def
      split: sum.splits prod.splits)

lemma bodyCanvases_activateXR:
  "bodyCanvases (activateXR p s) = bodyCanvases s + (if sessionGranted p then 1 else 0)"
  by (simp add: activation_defs handler_defs Let_def split: sum.splits prod.splits)

lemma canvas_activateXR:
  "sessionGranted p \<Longrightarrow> canvas (activateXR p s) \<and> xrSession (activateXR p s)"
  by (simp add: activation_defs handler_defs Let_def split: sum.splits prod.splits)

lemma frameloop_activateXR:
  "\<not> everyStepGranted p \<Longrightarrow>
   frameRequests (activateXR p s) = frameRequests s \<and> selectWired (activateXR p s) = selectWired s"
  by (simp add: everyStepGranted_def activation_defs handler_defs Let_def
      split: sum.splits prod.splits)

lemma started_activateXR: "everyStepGranted p \<Longrightarrow> started (activateXR p s)"
  by (simp add: started_def everyStepGranted_def activation_defs handler_defs Let_def)

subsection \<open>The probe and the sessions requested\<close>

lemma enterArWired_activateXR: "enterArWired (activateXR p s) = enterArWired s"
  by (simp add: activation_defs handler_defs Let_def split: sum.splits prod.splits)

lemma enterArWired_onXRFrame: "enterArWired (onXRFrame s f) = enterArWired s"
  by (simp add: onXRFrame_def handler_defs Let_def split: option.splits list.splits)

lemma enterArWired_onLoad: "enterArWired (onLoad g s) = enterArWired s"
  by (simp add: onLoad_def handler_defs Let_def split: option.splits prod.splits)

lemma enterArWired_click: "enterArWired (click b s) = enterArWired s"
  by (cases b) (simp_all add: model1_click_def model2_click_def handler_defs)

lemma enterArWired_step: "enterArWired (step s e) = enterArWired s"
  by (cases e)
    (simp_all add: enterArWired_activateXR enterArWired_onXRFrame enterArWired_onLoad
      enterArWired_click onSelect_def onLoadError_def handler_defs Let_def
      split: load_outcome.splits)

lemma sessionRequests_onXRFrame: "sessionRequests (onXRFrame s f) = sessionRequests s"
  by (simp add: sessionRequests_def onXRFrame_def handler_defs Let_def
      split: option.splits list.splits)

lemma sessionRequests_onLoad: "sessionRequests (onLoad g s) = sessionRequests s"
  by (simp add: sessionRequests_def onLoad_def handler_defs Let_def split: option.splits prod.splits)

lemma sessionRequests_click: "sessionRequests (click b s) = sessionRequests s"
  by (cases b) (simp_all add: sessionRequests_def model1_click_def model2_click_def handler_defs)

lemma sessionRequests_step:
  "\<not> enterArWired s \<Longrightarrow> sessionRequests (step s e) = sessionRequests s"
proof (cases e)
  case (LoadDone k out)
  assume "\<not> enterArWired s"
  show ?thesis
    using sessionRequests_onLoad [of _ "s\<lparr>loads := dropAt k (loads s)\<rparr>"]
    by (simp add: LoadDone sessionRequests_def onLoadError_def handler_defs
        split: load_outcome.splits)
next
  case (XRFrame f)
  show ?thesis
    using sessionRequests_onXRFrame [of "s\<lparr>frameRequests := frameRequests s - 1\<rparr>" f]
    by (simp add: XRFrame sessionRequests_def)
qed (simp_all add: sessionRequests_click,
     simp add: sessionRequests_def onSelect_def handler_defs Let_def)

lemma unwired_run:
  "\<not> enterArWired s \<Longrightarrow>
   \<not> enterArWired (run s es) \<and> sessionRequests (run s es) = sessionRequests s"
  by (induction es arbitrary: s)
    (simp_all add: run_Nil run_Cons enterArWired_step sessionRequests_step del: step.simps)

lemma probe_rejected:
  "probe Rejected s = s\<lparr>trace := trace s @ [IsSessionSupported, Uncaught]\<rparr>"
  by (simp add: probe_def handler_defs)

text \<open>
  The three outcomes in which the probe reaches its \<open>else\<close> branch: one call of the
  fallback handler, the button never wired, no session requested by any later event.
\<close>

lemma probe_unsupported:
  "out \<in> {XRAbsent, QueryAbsent, Resolved False} \<Longrightarrow> \<not> enterArWired s \<Longrightarrow>
   fallbacks (probe out s) = fallbacks s + 1 \<and>
   \<not> enterArWired (run (probe out s) es) \<and>
   sessionRequests (run (probe out s) es) = sessionRequests s"
proof -
  assume o: "out \<in> {XRAbsent, QueryAbsent, Resolved False}" and u: "\<not> enterArWired s"
  have a: "fallbacks (probe out s) = fallbacks s + 1"
    using o by (auto simp add: fallbacks_def probe_def handler_defs)
  have b: "\<not> enterArWired (probe out s)" "sessionRequests (probe out s) = sessionRequests s"
    using o u by (auto simp add: sessionRequests_def probe_def handler_defs)
  show ?thesis
    using a b unwired_run [of "probe out s" es] by simp
qed

text \<open>A rejected query wires nothing either, and calls no fallback.\<close>

lemma probe_rejected_run:
  "\<not> enterArWired s \<Longrightarrow>
   \<not> enterArWired (run (probe Rejected s) es) \<and>
   sessionRequests (run (probe Rejected s) es) = sessionRequests s \<and>
   fallbacks (run (probe Rejected s) []) = fallbacks s"
  using unwired_run [of "probe Rejected s" es]
  by (simp add: probe_rejected count_defs run_Nil)

subsection \<open>The selection\<close>

lemma selectedModel_activateXR: "selectedModel (activateXR p s) = selectedModel s"
  by (simp add: activation_defs handler_defs Let_def split: sum.splits prod.splits)

lemma selectedModel_onXRFrame: "selectedModel (onXRFrame s f) = selectedModel s"
  by (simp add: onXRFrame_def handler_defs Let_def split: option.splits list.splits)

lemma selectedModel_onLoad: "selectedModel (onLoad g s) = selectedModel s"
  by (simp add: onLoad_def handler_defs Let_def split: option.splits prod.splits)

lemma selectedModel_click: "selectedModel (click b s) = boundAsset b"
  by (cases b) (simp_all add: model1_click_def model2_click_def handler_defs)

lemma selectedModel_step:
  "selectedModel (step s e) = (case e of ModelClick b \<Rightarrow> boundAsset b | _ \<Rightarrow> selectedModel s)"
  by (cases e)
    (simp_all add: selectedModel_activateXR selectedModel_onXRFrame selectedModel_onLoad
      selectedModel_click onSelect_def onLoadError_def handler_defs Let_def
      split: load_outcome.splits)

text \<open>
  Whatever other events an execution holds, the selection after it is the asset of
  its last selection click, and the initial one when it has none.
\<close>

lemma selectedModel_run:
  "selectedModel (run s es) = (case lastClick es of Some b \<Rightarrow> boundAsset b | None \<Rightarrow> selectedModel s)"
proof (induction es arbitrary: s)
  case Nil
  show ?case by (simp add: run_Nil)
next
  case (Cons e es)
  show ?case
    by (simp add: run_Cons Cons.IH selectedModel_step del: step.simps
        split: option.splits event.splits)
qed

lemma lastClick_clicks: "cs \<noteq> [] \<Longrightarrow> lastClick (map ModelClick cs) = Some (last cs)"
  by (induction cs) (auto split: option.splits)

lemma loads_click: "loads (click b s) = loads s"
  by (cases b) (simp_all add: model1_click_def model2_click_def handler_defs)

lemma loads_clicks: "loads (run s (map ModelClick bs)) = loads s"
  by (induction bs arbitrary: s) (simp_all add: run_Nil run_Cons loads_click)

lemma clicks_frame:
  "\<exists>sel t. run s (map ModelClick bs) = s\<lparr>selectedModel := sel, trace := t\<rparr>"
proof (induction bs arbitrary: s)
  case Nil
  have "run s (map ModelClick []) = s\<lparr>selectedModel := selectedModel s, trace := trace s\<rparr>"
    by (simp add: run_Nil)
  then show ?case by blast
next
  case (Cons b bs)
  obtain sel0 t0 where st: "click b s = s\<lparr>selectedModel := sel0, trace := t0\<rparr>"
    by (cases b) (simp_all add: model1_click_def model2_click_def handler_defs)
  from Cons.IH [of "click b s"] obtain sel t
    where "run (click b s) (map ModelClick bs) = (click b s)\<lparr>selectedModel := sel, trace := t\<rparr>"
    by blast
  then have "run s (map ModelClick (b # bs)) = s\<lparr>selectedModel := sel, trace := t\<rparr>"
    by (simp add: run_Cons st)
  then show ?case by blast
qed

subsection \<open>Frames\<close>


lemma reticle_onXRFrame_empty: "hitTestResults f = [] \<Longrightarrow> reticle (onXRFrame s f) = reticle s"
  by (simp add: onXRFrame_def handler_defs Let_def split: option.splits list.splits)

lemma reticle_onXRFrame_hit:
  "started s \<Longrightarrow> viewerPose f = Some v \<Longrightarrow> hitTestResults f = h # hs \<Longrightarrow> reticle s = Some r \<Longrightarrow>
   reticle (onXRFrame s f) = Some (r\<lparr>visible := True, position := h\<rparr>)"
  by (auto simp add: started_def onXRFrame_def handler_defs Let_def split: option.splits list.splits)









lemma onXRFrame_lost:
  "started s \<Longrightarrow> viewerPose f = None \<Longrightarrow>
   onXRFrame s f = s\<lparr>frameRequests := frameRequests s + 1,
     trace := trace s @ [Log ''XR Frame'', RequestAnimationFrame, BindFramebuffer,
                         SetFramebuffer, GetViewerPose]\<rparr>"
  by (simp add: started_def onXRFrame_def handler_defs Let_def)

lemma onXRFrame_trace:
  "started s \<Longrightarrow>
   \<exists>rest. trace (onXRFrame s f) =
     trace s @ [Log ''XR Frame'', RequestAnimationFrame, BindFramebuffer, SetFramebuffer,
                GetViewerPose] @ rest"
  by (auto simp add: started_def onXRFrame_def handler_defs Let_def split: option.splits list.splits)

lemma onXRFrame_renders:
  "started s \<Longrightarrow> viewerPose f \<noteq> None \<Longrightarrow> last (trace (onXRFrame s f)) = Render"
  by (auto simp add: started_def onXRFrame_def handler_defs Let_def split: option.splits list.splits)

lemma frameRequests_onXRFrame:
  "started s \<Longrightarrow> frameRequests (onXRFrame s f) = frameRequests s + 1"
  by (auto simp add: started_def onXRFrame_def handler_defs Let_def split: option.splits list.splits)

subsection \<open>The load callback\<close>

text \<open>
  The clone is the last child when the shadow mesh is looked up; aligning the shadow
  mesh with the clone's own height leaves the clone as it is, also when the clone itself
  is the child found.
\<close>

lemma alignShadowMesh_last:
  "alignShadowMesh (vy (position c)) r (cs @ [Obj c]) = Some (r', cs') \<Longrightarrow>
   \<exists>cs''. cs' = cs'' @ [Obj c] \<and> length cs'' = length cs"
proof (induction cs arbitrary: cs' r')
  case Nil
  then show ?case
    by (cases c) (auto simp add: setY_def split: if_splits)
next
  case (Cons a cs)
  show ?case
  proof (cases a)
    case ReticleRef
    show ?thesis
    proof (cases "name r = ''shadowMesh''")
      case True
      with Cons.prems ReticleRef show ?thesis by auto
    next
      case False
      with Cons.prems ReticleRef obtain r1 cs1
        where a: "alignShadowMesh (vy (position c)) r (cs @ [Obj c]) = Some (r1, cs1)"
          and b: "cs' = ReticleRef # cs1"
        by auto
      from Cons.IH [OF a] obtain cs2 where "cs1 = cs2 @ [Obj c]" "length cs2 = length cs"
        by blast
      with b show ?thesis by simp
    qed
  next
    case (Obj ob)
    show ?thesis
    proof (cases "name ob = ''shadowMesh''")
      case True
      with Cons.prems Obj show ?thesis by auto
    next
      case False
      with Cons.prems Obj obtain r1 cs1
        where a: "alignShadowMesh (vy (position c)) r (cs @ [Obj c]) = Some (r1, cs1)"
          and b: "cs' = Obj ob # cs1"
        by auto
      from Cons.IH [OF a] obtain cs2 where "cs1 = cs2 @ [Obj c]" "length cs2 = length cs"
        by blast
      with b show ?thesis by simp
    qed
  qed
qed

lemma onLoad_places:
  assumes "\<not> modelPlaced s" and "reticle s = Some r" and "scene s = Some sc"
  shows "modelPlaced (onLoad (GLTF (Some m)) s) \<and>
         customModel (onLoad (GLTF (Some m)) s) = Some m \<and>
         (\<exists>sc'. scene (onLoad (GLTF (Some m)) s) = Some (sc' @ [Obj (m\<lparr>position := position r\<rparr>)])
                \<and> length sc' = length sc)"
proof (cases "alignShadowMesh (vy (position r)) r (sc @ [Obj (m\<lparr>position := position r\<rparr>)])")
  case None
  with assms show ?thesis
    by (simp add: onLoad_def handler_defs Let_def)
next
  case (Some a)
  obtain r' sc' where a: "a = (r', sc')" by (cases a)
  have "alignShadowMesh (vy (position (m\<lparr>position := position r\<rparr>))) r
          (sc @ [Obj (m\<lparr>position := position r\<rparr>)]) = Some (r', sc')"
    using Some a by simp
  from alignShadowMesh_last [OF this] obtain sc''
    where "sc' = sc'' @ [Obj (m\<lparr>position := position r\<rparr>)]" "length sc'' = length sc"
    by blast
  with assms Some a show ?thesis
    by (simp add: onLoad_def handler_defs Let_def)
qed

text \<open>
  A delivered scene is placed while the flag is false and left alone once it is true;
  the number of placements moves only together with the flag.
\<close>

lemma placements_placed_run: "modelPlaced s \<Longrightarrow> placements (run s es) = placements s"
proof (induction es arbitrary: s)
  case Nil
  show ?case by (simp add: run_Nil)
next
  case (Cons e es)
  have kept: "modelPlaced (step s e)"
    using Cons.prems by (rule modelPlaced_step)
  have same: "placements (step s e) = placements s"
    using placements_step [of s e] Cons.prems by blast
  show ?case
    using Cons.IH [OF kept] same by (simp only: run_Cons)
qed

lemma placements_unplaced_run: "\<not> modelPlaced (run s es) \<Longrightarrow> placements (run s es) = placements s"
proof (induction es arbitrary: s)
  case Nil
  show ?case by (simp add: run_Nil)
next
  case (Cons e es)
  have later: "\<not> modelPlaced (run (step s e) es)"
    using Cons.prems unfolding run_Cons .
  then have now: "\<not> modelPlaced (step s e)"
    using modelPlaced_run [of "step s e" es] by blast
  have same: "placements (step s e) = placements s"
    using placements_step [of s e] now by blast
  show ?case
    using Cons.IH [OF later] same by (simp only: run_Cons)
qed

lemma placements_onLoad_places:
  "\<not> modelPlaced s \<Longrightarrow> reticle s = Some r \<Longrightarrow> scene s = Some sc \<Longrightarrow>
   placements (onLoad (GLTF (Some m)) s) = Suc (placements s)"
  by (simp add: placements_def onLoad_def handler_defs Let_def split: option.splits prod.splits)

lemma onLoad_placed:
  "modelPlaced s \<Longrightarrow> onLoad g s =
     s\<lparr>customModel := gltf_scene g,
       trace := trace s @ [Log ''Model loaded successfully:'', Log ''Custom model set:'']\<rparr>"
  by (simp add: onLoad_def handler_defs Let_def split: option.splits)

subsection \<open>The concrete session, evaluated\<close>

lemma demoSession_eq:
  "demoSession =
   \<lparr> selectedModel = ''../assets/scene.gltf'', customModel = None,
     enterArWired = True, bodyCanvases = 1, bodyClasses = [''ar''],
     modelPlaced = False, xrSession = True, canvas = True, gl = True, baseLayer = True,
     renderer = True, rendererSize = None,
     scene = Some [Obj \<lparr>name = ''shadowMesh'', position = Vector3 0 0 0, visible = True\<rparr>, ReticleRef],
     reticle = Some \<lparr>name = [], position = Vector3 0 0 0, visible = False\<rparr>,
     camera = Some \<lparr>matrixAutoUpdate = False, cam_matrix = [], cam_projectionMatrix = []\<rparr>,
     localReferenceSpace = True, viewerSpace = True, hitTestSource = True,
     stabilized = False, frameRequests = 1, selectWired = True, loads = [],
     trace =
      [IsSessionSupported, AddClickListener,
       Log ''Attempting to initialize WebXR session...'', RequestSession,
       Log ''WebXR session initialized successfully.'',
       Log ''Creating XR canvas...'', AppendCanvas, GetContext,
       Log ''XR canvas created successfully.'', UpdateRenderState,
       Log ''Starting XR session...'', Log ''Setting up Three.js...'',
       SceneAdd ReticleRef, Log ''Three.js setup completed.'',
       RequestReferenceSpace ''local'', RequestReferenceSpace ''viewer'',
       RequestHitTestSource, RequestAnimationFrame, AddSelectListener,
       Log ''XR session started successfully.''] \<rparr>"
  by (simp add: demoSession_def demo_defs)

lemma started_demoSession: "started demoSession"
  by (simp add: started_def demoSession_eq)

lemma placedSession_facts:
  "modelPlaced placedSession"
  "selectWired placedSession"
  "scene placedSession =
     Some [Obj \<lparr>name = ''shadowMesh'', position = Vector3 0 0 0, visible = True\<rparr>, ReticleRef,
           Obj \<lparr>name = ''table'', position = Vector3 0 0 (- 1), visible = True\<rparr>]"
  by (simp_all add: placedSession_def demoSession_eq demo_defs)

section \<open>The properties\<close>

subsection \<open>Placement happens at most once\<close>

text \<open>
  C1. Once \<open>modelPlaced\<close> is true, a tap is a no-op: \<open>onSelect\<close> writes its two
  console lines and returns, so after any number of taps the state differs from the
  state before them in the console trace only (the scene, the reticle and the loads in
  flight are the same). No event of any kind resets the flag: it is true after every
  execution that starts with the flag true.
\<close>

theorem placement_flag_monotonic:
  "modelPlaced s \<Longrightarrow>
   onSelect s = s\<lparr>trace := trace s @ [Log ''Tapped!'', Log ''Model already placed, ignoring tap.'']\<rparr> \<and>
   run s (replicate n Select) = s\<lparr>trace := trace s @ (if selectWired s then tapLog n else [])\<rparr> \<and>
   modelPlaced (run s es)"
proof -
  assume placed: "modelPlaced s"
  have one: "onSelect s = s\<lparr>trace := trace s @ [Log ''Tapped!'', Log ''Model already placed, ignoring tap.'']\<rparr>"
    using placed by (rule onSelect_placed)
  have many: "run s (replicate n Select) = s\<lparr>trace := trace s @ (if selectWired s then tapLog n else [])\<rparr>"
    using placed by (rule taps_placed_any)
  have never: "modelPlaced (run s es)"
    using placed by (rule modelPlaced_run)
  from one many never show ?thesis by blast
qed

theorem placement_flag_monotonic_witness:
  "modelPlaced placedSession \<and>
   scene (run placedSession (replicate 3 Select)) = scene placedSession \<and>
   modelPlaced (run placedSession [Select, XRFrame demoFrame, ModelClick Model1,
      LoadDone 0 (demoLoader ''../assets/scene.gltf''), EnterArClick demoPlatform])"
proof -
  have h: "modelPlaced placedSession" by (rule placedSession_facts)
  show ?thesis
    using h placement_flag_monotonic [OF h, of 3 "[Select, XRFrame demoFrame, ModelClick Model1,
      LoadDone 0 (demoLoader ''../assets/scene.gltf''), EnterArClick demoPlatform]"]
    by simp
qed

text \<open>
  C2, as the claim states it: some execution with two taps before the first load
  resolves places two models. It has none. In the session below both taps pass the
  guard of \<open>onSelect\<close> and start a load each, both loads resolve with a scene, and one
  clone is added: the second callback finds \<open>modelPlaced\<close> set by the first (line 104).
  No execution of that session adds two.
\<close>

theorem two_taps_one_placement_counterexample:
  "loads (run demoSession [Select, Select]) = [''../assets/scene.gltf'', ''../assets/scene.gltf''] \<and>
   placements (run demoSession [Select, Select,
      LoadDone 0 (demoLoader ''../assets/scene.gltf''),
      LoadDone 0 (demoLoader ''../assets/scene.gltf'')]) = 1 \<and>
   \<not> (\<exists>es. 2 \<le> placements (run demoSession es))"
proof -
  have a: "loads (run demoSession [Select, Select]) = [''../assets/scene.gltf'', ''../assets/scene.gltf'']"
    by (simp add: demoSession_eq demo_defs)
  have b: "placements (run demoSession [Select, Select,
      LoadDone 0 (demoLoader ''../assets/scene.gltf''),
      LoadDone 0 (demoLoader ''../assets/scene.gltf'')]) = 1"
    by (simp add: placements_def demoSession_eq demo_defs)
  have c: "placements demoSession = 0"
    by (simp add: placements_def demoSession_eq)
  have "placements (run demoSession es) \<le> 1" for es
    using placements_run [of demoSession es] c by (simp split: if_splits)
  then have "\<not> (\<exists>es. 2 \<le> placements (run demoSession es))"
    by (metis Suc_1 not_less_eq_eq)
  with a b show ?thesis by blast
qed

text \<open>
  C2, amended. Two taps before any load resolves both pass the guard of \<open>onSelect\<close>:
  each calls the loader with the current selection, and two loads are in flight. The
  success callback checks the flag again. Whatever happens in between, as long as the
  flag is still false no clone has been added; the first load that then delivers a scene
  places one clone of it at the reticle's position and sets the flag; from there every
  execution keeps the number of placements as it is, and a further delivered scene (the
  other load's) leaves the scene unchanged. So every execution after the two taps adds
  at most one clone.
\<close>

theorem two_taps_one_placement:
  "\<not> modelPlaced s \<Longrightarrow> selectWired s \<Longrightarrow>
   loads (run s [Select, Select]) = loads s @ [selectedModel s, selectedModel s] \<and>
   trace (run s [Select, Select]) =
     trace s @ [Log ''Tapped!'', LoaderLoad (selectedModel s), Log ''Tapped!'', LoaderLoad (selectedModel s)] \<and>
   placements (run (run s [Select, Select]) es) \<le> placements s + 1 \<and>
   (let t = run (run s [Select, Select]) mid;
        u = step t (LoadDone k (Loaded (GLTF (Some m))))
    in \<not> modelPlaced t \<and> reticle t = Some r \<and> scene t = Some sc \<and> k < length (loads t) \<longrightarrow>
         placements t = placements s \<and>
         modelPlaced u \<and>
         placements u = placements s + 1 \<and>
         (\<exists>sc'. scene u = Some (sc' @ [Obj (m\<lparr>position := position r\<rparr>)]) \<and> length sc' = length sc) \<and>
         placements (run u es') = placements s + 1 \<and>
         (\<forall>j g. scene (step u (LoadDone j (Loaded g))) = scene u))"
proof -
  assume np: "\<not> modelPlaced s" and w: "selectWired s"
  have st: "run s [Select, Select] =
      s\<lparr>loads := loads s @ [selectedModel s, selectedModel s],
        trace := trace s @ [Log ''Tapped!'', LoaderLoad (selectedModel s),
                            Log ''Tapped!'', LoaderLoad (selectedModel s)]\<rparr>"
    using np w by (simp add: run_def onSelect_def handler_defs Let_def)
  have "placements (run s ([Select, Select] @ es)) \<le> placements s + 1"
    using placements_run [of s "[Select, Select] @ es"] np by simp
  then have bound: "placements (run (run s [Select, Select]) es) \<le> placements s + 1"
    by (simp only: run_append)
  let ?t = "run (run s [Select, Select]) mid"
  let ?u = "step ?t (LoadDone k (Loaded (GLTF (Some m))))"
  have first: "placements ?t = placements s \<and> modelPlaced ?u \<and> placements ?u = placements s + 1 \<and>
      (\<exists>sc'. scene ?u = Some (sc' @ [Obj (m\<lparr>position := position r\<rparr>)]) \<and> length sc' = length sc) \<and>
      placements (run ?u es') = placements s + 1 \<and>
      (\<forall>j g. scene (step ?u (LoadDone j (Loaded g))) = scene ?u)"
    if npt: "\<not> modelPlaced ?t" and rt: "reticle ?t = Some r" and sct: "scene ?t = Some sc"
      and k: "k < length (loads ?t)"
  proof -
    have "placements ?t = placements (run s ([Select, Select] @ mid))"
      by (simp only: run_append)
    also have "\<dots> = placements s"
      by (rule placements_unplaced_run) (unfold run_append, rule npt)
    finally have pt: "placements ?t = placements s" .
    let ?t' = "?t\<lparr>loads := dropAt k (loads ?t)\<rparr>"
    have u: "?u = onLoad (GLTF (Some m)) ?t'"
      using k by simp
    have f: "\<not> modelPlaced ?t'" "reticle ?t' = Some r" "scene ?t' = Some sc"
      using npt rt sct by simp_all
    have pt': "placements ?t' = placements s"
      using pt by (simp add: placements_def)
    have placed: "modelPlaced ?u"
      and sc: "\<exists>sc'. scene ?u = Some (sc' @ [Obj (m\<lparr>position := position r\<rparr>)]) \<and> length sc' = length sc"
      using onLoad_places [OF f, of m] by (simp_all only: u)
    have pu: "placements ?u = placements s + 1"
      using placements_onLoad_places [OF f, of m] pt' by (simp only: u)
    have after: "placements (run ?u es') = placements s + 1"
      using placements_placed_run [OF placed, of es'] pu by simp
    have later: "scene (step ?u (LoadDone j (Loaded g))) = scene ?u" for j g
    proof (cases "j < length (loads ?u)")
      case True
      have "modelPlaced (?u\<lparr>loads := dropAt j (loads ?u)\<rparr>)"
        using placed by simp
      from onLoad_placed [OF this, of g] True show ?thesis
        by simp
    next
      case False
      then show ?thesis by simp
    qed
    from pt placed pu sc after later show ?thesis by blast
  qed
  show ?thesis
    using st bound first by (simp add: Let_def del: step.simps)
qed


theorem two_taps_one_placement_witness:
  "\<not> modelPlaced demoSession \<and> selectWired demoSession \<and>
   \<not> modelPlaced (run (run demoSession [Select, Select]) [XRFrame demoFrame]) \<and>
   reticle (run (run demoSession [Select, Select]) [XRFrame demoFrame])
     = Some \<lparr>name = [], position = Vector3 0 0 (- 1), visible = True\<rparr> \<and>
   (1::nat) < length (loads (run (run demoSession [Select, Select]) [XRFrame demoFrame])) \<and>
   loads (run demoSession [Select, Select]) = [''../assets/scene.gltf'', ''../assets/scene.gltf''] \<and>
   placements (step (run (run demoSession [Select, Select]) [XRFrame demoFrame])
      (LoadDone 1 (demoLoader ''../assets/scene.gltf''))) = 1 \<and>
   placements (run (step (run (run demoSession [Select, Select]) [XRFrame demoFrame])
        (LoadDone 1 (demoLoader ''../assets/scene.gltf'')))
      [LoadDone 0 (demoLoader ''../assets/scene.gltf''), Select]) = 1 \<and>
   placements (run (run demoSession [Select, Select])
      [LoadDone 1 (demoLoader ''../assets/scene.gltf''),
       LoadDone 0 (demoLoader ''../assets/scene.gltf'')]) \<le> 1"
proof -
  let ?t = "run (run demoSession [Select, Select]) [XRFrame demoFrame]"
  let ?chair = "\<lparr>name = ''chair'', position = Vector3 0 0 0, visible = True\<rparr>"
  have h1: "\<not> modelPlaced demoSession" and h2: "selectWired demoSession"
    by (simp_all add: demoSession_eq)
  have c: "placements demoSession = 0" "loads demoSession = []"
    "selectedModel demoSession = ''../assets/scene.gltf''"
    by (simp_all add: placements_def demoSession_eq)
  have t: "\<not> modelPlaced ?t"
    "reticle ?t = Some \<lparr>name = [], position = Vector3 0 0 (- 1), visible = True\<rparr>"
    "scene ?t = Some [Obj \<lparr>name = ''shadowMesh'', position = Vector3 0 0 0, visible = True\<rparr>, ReticleRef]"
    "(1::nat) < length (loads ?t)"
    by (simp_all add: demoSession_eq demo_defs)
  have l: "demoLoader ''../assets/scene.gltf'' = Loaded (GLTF (Some ?chair))"
    by (simp add: demoLoader_def)
  show ?thesis
    using h1 h2 c t
      two_taps_one_placement [OF h1 h2,
        where es = "[LoadDone 1 (demoLoader ''../assets/scene.gltf''),
                     LoadDone 0 (demoLoader ''../assets/scene.gltf'')]"
          and mid = "[XRFrame demoFrame]" and k = 1 and m = ?chair
          and r = "\<lparr>name = [], position = Vector3 0 0 (- 1), visible = True\<rparr>"
          and sc = "[Obj \<lparr>name = ''shadowMesh'', position = Vector3 0 0 0, visible = True\<rparr>, ReticleRef]"
          and es' = "[LoadDone 0 (demoLoader ''../assets/scene.gltf''), Select]"]
    by (simp add: Let_def l del: step.simps)
qed

subsection \<open>Activation failures\<close>

text \<open>
  C3, as the claim states it: a failed activation leaves no partial state, no canvas
  attached. On a platform whose \<open>getContext\<close> returns null, \<open>createXRCanvas\<close> has
  appended the canvas (line 70) before the layer constructor throws (line 75): the
  \<open>catch\<close> calls the fallback and removes nothing, so the canvas stays in the
  document and the session handle stays in \<open>this.xrSession\<close>.
\<close>

theorem activation_not_atomic_counterexample:
  "isl (activateXR_try noContextPlatform booted) \<and>
   bodyCanvases booted = 0 \<and>
   bodyCanvases (activateXR noContextPlatform booted) = 1 \<and>
   canvas (activateXR noContextPlatform booted) \<and>
   xrSession (activateXR noContextPlatform booted) \<and>
   fallbacks (activateXR noContextPlatform booted) = 1"
proof -
  have thrown: "isl (activateXR_try noContextPlatform booted)"
    by (simp add: activateXR_try_fails everyStepGranted_def noContextPlatform_def demoPlatform_def)
  have before: "bodyCanvases booted = 0"
    by (simp add: demo_defs)
  have after: "bodyCanvases (activateXR noContextPlatform booted) = 1"
    "canvas (activateXR noContextPlatform booted)"
    "xrSession (activateXR noContextPlatform booted)"
    "fallbacks (activateXR noContextPlatform booted) = 1"
    by (simp_all add: noContextPlatform_def count_defs demo_defs)
  from thrown before after show ?thesis by blast
qed

text \<open>
  C3, amended. Every failure of \<open>activateXR\<close> (an exception reaching its \<open>catch\<close>)
  calls the no-device fallback exactly once and registers neither a frame callback nor
  the select listener. When the session request itself is rejected, nothing but the
  console trace and the fallback call has happened. When a later step fails (context
  or layer creation, the renderer, a reference space, the hit-test source), what was
  written before the failure remains: the session handle is kept and one canvas more is
  attached to the document.
\<close>

theorem activation_failure_state:
  "isl (activateXR_try p s) \<Longrightarrow>
   fallbacks (activateXR p s) = fallbacks s + 1 \<and>
   frameRequests (activateXR p s) = frameRequests s \<and>
   selectWired (activateXR p s) = selectWired s \<and>
   (if sessionGranted p
    then bodyCanvases (activateXR p s) = bodyCanvases s + 1 \<and>
         canvas (activateXR p s) \<and> xrSession (activateXR p s)
    else activateXR p s = s\<lparr>trace := trace s @
           [Log ''Attempting to initialize WebXR session...'', RequestSession,
            LogException SessionError, NoXRDevice]\<rparr>)"
proof -
  assume "isl (activateXR_try p s)"
  then have f: "\<not> everyStepGranted p"
    by (simp add: activateXR_try_fails)
  have "fallbacks (activateXR p s) = fallbacks s + 1"
    using f by (simp add: fallbacks_def fallback_activateXR)
  moreover have "frameRequests (activateXR p s) = frameRequests s \<and>
      selectWired (activateXR p s) = selectWired s"
    using f by (rule frameloop_activateXR)
  moreover have "sessionGranted p \<Longrightarrow> bodyCanvases (activateXR p s) = bodyCanvases s + 1 \<and>
         canvas (activateXR p s) \<and> xrSession (activateXR p s)"
    by (simp add: bodyCanvases_activateXR canvas_activateXR)
  ultimately show ?thesis
    by (simp add: activateXR_rejected)
qed

theorem activation_failure_state_witness:
  "isl (activateXR_try noContextPlatform booted) \<and>
   isl (activateXR_try deniedPlatform booted) \<and>
   fallbacks (activateXR noContextPlatform booted) = 1 \<and>
   bodyCanvases (activateXR noContextPlatform booted) = 1 \<and>
   fallbacks (activateXR deniedPlatform booted) = 1 \<and>
   bodyCanvases (activateXR deniedPlatform booted) = 0"
proof -
  have h1: "isl (activateXR_try noContextPlatform booted)"
    by (simp add: activateXR_try_fails everyStepGranted_def noContextPlatform_def demoPlatform_def)
  have h2: "isl (activateXR_try deniedPlatform booted)"
    by (simp add: activateXR_try_fails everyStepGranted_def deniedPlatform_def demoPlatform_def)
  have g: "sessionGranted noContextPlatform" "\<not> sessionGranted deniedPlatform"
    by (simp_all add: noContextPlatform_def deniedPlatform_def demoPlatform_def)
  have b: "fallbacks booted = 0" "bodyCanvases booted = 0"
    by (simp_all add: count_defs demo_defs)
  show ?thesis
    using h1 h2 g b activation_failure_state [OF h1] activation_failure_state [OF h2]
    by (simp add: fallbacks_def)
qed

text \<open>
  C4, at the outcome where the program departs from it. When \<open>isSessionSupported\<close>
  rejects, the \<open>await\<close> of line 21 throws inside an async function that has no
  \<open>try\<close>: the fallback handler is not called at all (the claim says once), while the
  button stays unwired and no session is requested. In the other three outcomes the
  claim covers (no \<open>navigator.xr\<close>, no \<open>isSessionSupported\<close>, a false result) the
  fallback is called once.
\<close>

theorem probe_rejection_skips_fallback:
  "fallbacks (probe Rejected initial) = 0 \<and>
   \<not> enterArWired (probe Rejected initial) \<and>
   sessionRequests (probe Rejected initial) = 0 \<and>
   fallbacks (probe XRAbsent initial) = 1 \<and>
   fallbacks (probe QueryAbsent initial) = 1 \<and>
   fallbacks (probe (Resolved False) initial) = 1"
proof -
  have rejected: "fallbacks (probe Rejected initial) = 0"
    "\<not> enterArWired (probe Rejected initial)"
    "sessionRequests (probe Rejected initial) = 0"
    by (simp_all add: probe_rejected count_defs initial_def)
  have others: "fallbacks (probe XRAbsent initial) = 1"
    "fallbacks (probe QueryAbsent initial) = 1"
    "fallbacks (probe (Resolved False) initial) = 1"
    by (simp_all add: count_defs demo_defs)
  from rejected others show ?thesis by blast
qed

text \<open>
  C5. If \<open>requestSession\<close> rejects, the fallback handler is called (once) and no
  canvas is attached: \<open>createXRCanvas\<close> is not reached, so the document holds the
  canvases it held before and \<open>this.canvas\<close> is what it was.
\<close>

theorem session_rejected_fallback:
  "\<not> sessionGranted p \<Longrightarrow>
   fallbacks (activateXR p s) = fallbacks s + 1 \<and>
   bodyCanvases (activateXR p s) = bodyCanvases s \<and>
   canvas (activateXR p s) = canvas s"
proof -
  assume "\<not> sessionGranted p"
  then have "activateXR p s = s\<lparr>trace := trace s @
     [Log ''Attempting to initialize WebXR session...'', RequestSession,
      LogException SessionError, NoXRDevice]\<rparr>"
    by (rule activateXR_rejected)
  then show ?thesis
    by (simp add: fallbacks_def)
qed

theorem session_rejected_fallback_witness:
  "\<not> sessionGranted deniedPlatform \<and>
   fallbacks (activateXR deniedPlatform booted) = 1 \<and>
   bodyCanvases (activateXR deniedPlatform booted) = 0 \<and>
   \<not> canvas (activateXR deniedPlatform booted)"
proof -
  have h: "\<not> sessionGranted deniedPlatform"
    by (simp add: deniedPlatform_def demoPlatform_def)
  have b: "fallbacks booted = 0" "bodyCanvases booted = 0" "\<not> canvas booted"
    by (simp_all add: count_defs demo_defs)
  show ?thesis
    using h b session_rejected_fallback [OF h, of booted] by simp
qed

subsection \<open>The selection\<close>

text \<open>
  C6. After any nonempty sequence of selection-button clicks, \<open>selectedModel\<close> is
  the asset bound to the button clicked last, and the next tap that starts a placement
  passes exactly that reference to the loader: it is the one load added to the loads in
  flight and the argument of the one \<open>loader.load\<close> call. (Lemma \<open>selectedModel_run\<close>
  is the same fact for clicks interleaved with any other events.)
\<close>

theorem selection_is_last_click:
  "cs \<noteq> [] \<Longrightarrow> \<not> modelPlaced s \<Longrightarrow>
   selectedModel (run s (map ModelClick cs)) = boundAsset (last cs) \<and>
   onSelect (run s (map ModelClick cs)) =
     (run s (map ModelClick cs))
       \<lparr>loads := loads (run s (map ModelClick cs)) @ [boundAsset (last cs)],
        trace := trace (run s (map ModelClick cs)) @ [Log ''Tapped!'', LoaderLoad (boundAsset (last cs))]\<rparr>"
proof -
  assume ne: "cs \<noteq> []" and np: "\<not> modelPlaced s"
  have sel: "selectedModel (run s (map ModelClick cs)) = boundAsset (last cs)"
    using ne by (simp add: selectedModel_run lastClick_clicks)
  have "\<not> modelPlaced (run s (map ModelClick cs))"
    using np by (simp add: modelPlaced_clicks)
  from onSelect_unplaced [OF this] sel show ?thesis
    by simp
qed

theorem selection_is_last_click_witness:
  "[Model1, Model2, Model1, Model2] \<noteq> [] \<and> \<not> modelPlaced demoSession \<and>
   selectedModel (run demoSession (map ModelClick [Model1, Model2, Model1, Model2])) = ''../assets/sceneD.gltf'' \<and>
   loads (onSelect (run demoSession (map ModelClick [Model1, Model2, Model1, Model2]))) = [''../assets/sceneD.gltf'']"
proof -
  have h1: "[Model1, Model2, Model1, Model2] \<noteq> []" by simp
  have h2: "\<not> modelPlaced demoSession" by (simp add: demoSession_eq)
  have l: "loads (run demoSession (map ModelClick [Model1, Model2, Model1, Model2])) = []"
    by (simp only: loads_clicks) (simp add: demoSession_eq)
  show ?thesis
    using h2 l selection_is_last_click [OF h1 h2] by simp
qed

text \<open>
  C10. The reference is read when the tap handler runs: \<open>loader.load\<close> gets the value
  \<open>selectedModel\<close> has at the tap. Selection clicks between the tap and the result
  of the load leave the load in flight as it is, so the asset delivered for it is the
  loader's answer for the selection at the tap, and the clone added to the scene is a
  copy of that asset, put at the reticle's position.
\<close>

theorem asset_snapshot_at_tap:
  assumes np: "\<not> modelPlaced s" and r: "reticle s = Some r" and sc: "scene s = Some sc"
    and ld: "loader (selectedModel s) = Loaded (GLTF (Some m))"
  shows "loads (run (onSelect s) (map ModelClick bs)) = loads s @ [selectedModel s] \<and>
     customModel (deliver loader (length (loads s)) (run (onSelect s) (map ModelClick bs))) = Some m \<and>
     modelPlaced (deliver loader (length (loads s)) (run (onSelect s) (map ModelClick bs))) \<and>
     (\<exists>sc'. scene (deliver loader (length (loads s)) (run (onSelect s) (map ModelClick bs)))
              = Some (sc' @ [Obj (m\<lparr>position := position r\<rparr>)]) \<and> length sc' = length sc)"
proof -
  let ?k = "length (loads s)"
  obtain sel t where s2: "run (onSelect s) (map ModelClick bs) = (onSelect s)\<lparr>selectedModel := sel, trace := t\<rparr>"
    using clicks_frame [of "onSelect s" bs] by blast
  let ?s2 = "run (onSelect s) (map ModelClick bs)"
  have l2: "loads ?s2 = loads s @ [selectedModel s]"
    using np by (simp only: loads_clicks) (simp add: onSelect_unplaced)
  let ?s3 = "?s2\<lparr>loads := dropAt ?k (loads ?s2)\<rparr>"
  have f3: "\<not> modelPlaced ?s3" "reticle ?s3 = Some r" "scene ?s3 = Some sc"
    using np r sc by (simp_all only: s2) (simp_all add: onSelect_unplaced)
  have "deliver loader ?k ?s2 = step ?s2 (LoadDone ?k (loader (selectedModel s)))"
    by (simp add: deliver_def l2 del: step.simps)
  also have "\<dots> = onLoad (GLTF (Some m)) ?s3"
    by (simp add: ld l2)
  finally have d: "deliver loader ?k ?s2 = onLoad (GLTF (Some m)) ?s3" .
  show ?thesis
    using l2 onLoad_places [OF f3, of m] by (simp only: d)
qed

theorem asset_snapshot_at_tap_witness:
  "\<not> modelPlaced demoSession \<and>
   demoLoader (selectedModel demoSession)
     = Loaded (GLTF (Some \<lparr>name = ''chair'', position = Vector3 0 0 0, visible = True\<rparr>)) \<and>
   selectedModel (run (onSelect demoSession) (map ModelClick [Model2])) = ''../assets/sceneD.gltf'' \<and>
   loads (run (onSelect demoSession) (map ModelClick [Model2])) = [''../assets/scene.gltf''] \<and>
   customModel (deliver demoLoader 0 (run (onSelect demoSession) (map ModelClick [Model2])))
     = Some \<lparr>name = ''chair'', position = Vector3 0 0 0, visible = True\<rparr>"
proof -
  have h: "\<not> modelPlaced demoSession"
    "reticle demoSession = Some \<lparr>name = [], position = Vector3 0 0 0, visible = False\<rparr>"
    "scene demoSession = Some [Obj \<lparr>name = ''shadowMesh'', position = Vector3 0 0 0, visible = True\<rparr>, ReticleRef]"
    by (simp_all add: demoSession_eq)
  have l: "demoLoader (selectedModel demoSession)
     = Loaded (GLTF (Some \<lparr>name = ''chair'', position = Vector3 0 0 0, visible = True\<rparr>))"
    by (simp add: demoSession_eq demoLoader_def)
  have e: "loads demoSession = []" "selectedModel demoSession = ''../assets/scene.gltf''"
    by (simp_all add: demoSession_eq)
  have c: "selectedModel (run (onSelect demoSession) (map ModelClick [Model2])) = ''../assets/sceneD.gltf''"
    by (simp add: selectedModel_run)
  show ?thesis
    using h(1) l e c asset_snapshot_at_tap [where loader = demoLoader and bs = "[Model2]", OF h l]
    by simp
qed

subsection \<open>The frame callback\<close>

text \<open>
  C7. On a frame whose hit-test result list is empty the reticle is what it was before
  the frame, position and visibility included. On a frame for which line 136 returns at
  least one result (the callback asks for the results only once it has the viewer's
  pose) the reticle is visible afterwards and its position is the position of the first
  result's pose.
\<close>

theorem reticle_sticky:
  "(hitTestResults f = [] \<longrightarrow> reticle (onXRFrame s f) = reticle s) \<and>
   (started s \<and> reticle s = Some r \<and> viewerPose f = Some v \<and> hitTestResults f = h # hs \<longrightarrow>
      reticle (onXRFrame s f) = Some (r\<lparr>visible := True, position := h\<rparr>))"
proof (intro conjI impI)
  assume "hitTestResults f = []"
  then show "reticle (onXRFrame s f) = reticle s"
    by (rule reticle_onXRFrame_empty)
next
  assume a: "started s \<and> reticle s = Some r \<and> viewerPose f = Some v \<and> hitTestResults f = h # hs"
  then have "started s" "viewerPose f = Some v" "hitTestResults f = h # hs" "reticle s = Some r"
    by simp_all
  then show "reticle (onXRFrame s f) = Some (r\<lparr>visible := True, position := h\<rparr>)"
    by (rule reticle_onXRFrame_hit)
qed

theorem reticle_sticky_witness:
  "hitTestResults emptyFrame = [] \<and>
   started demoSession \<and>
   hitTestResults demoFrame = [Vector3 0 0 (- 1)] \<and>
   reticle (onXRFrame demoSession demoFrame)
     = Some \<lparr>name = [], position = Vector3 0 0 (- 1), visible = True\<rparr> \<and>
   reticle (onXRFrame (onXRFrame demoSession demoFrame) emptyFrame)
     = Some \<lparr>name = [], position = Vector3 0 0 (- 1), visible = True\<rparr>"
proof -
  have e: "hitTestResults emptyFrame = []"
    by (simp add: emptyFrame_def)
  have s: "started demoSession"
    by (rule started_demoSession)
  have d: "reticle demoSession = Some \<lparr>name = [], position = Vector3 0 0 0, visible = False\<rparr>"
    "viewerPose demoFrame = Some \<lparr> matrix = [], projectionMatrix = [], viewport = (640, 480) \<rparr>"
    "hitTestResults demoFrame = [Vector3 0 0 (- 1)]"
    by (simp_all add: demoSession_eq demoFrame_def)
  show ?thesis
    using e s d
      reticle_sticky [of demoFrame demoSession _ _ "Vector3 0 0 (- 1)" "[]"]
      reticle_sticky [of emptyFrame "onXRFrame demoSession demoFrame"]
    by simp
qed



text \<open>
  C9. Every invocation of \<open>onXRFrame\<close> registers the callback for the next frame
  before anything else is asked of the session: after the console line of line 123,
  \<open>requestAnimationFrame\<close> is the first call, ahead of the framebuffer binding and of
  \<open>getViewerPose\<close>. When the pose is unavailable the callback ends there: the state
  is the old one with one more frame request and these five trace entries, so the
  renderer size, the camera, the stabilized flag and the reticle are untouched and
  nothing is rendered; with a pose the callback ends with the render call. Delivered
  through the session, a frame leaves as many callbacks pending as it found: the loop
  stays alive.
\<close>

theorem frame_reregisters_first:
  "started s \<Longrightarrow>
   (\<exists>rest. trace (onXRFrame s f) =
      trace s @ [Log ''XR Frame'', RequestAnimationFrame, BindFramebuffer, SetFramebuffer,
                 GetViewerPose] @ rest) \<and>
   frameRequests (onXRFrame s f) = frameRequests s + 1 \<and>
   (if viewerPose f = None
    then onXRFrame s f = s\<lparr>frameRequests := frameRequests s + 1,
           trace := trace s @ [Log ''XR Frame'', RequestAnimationFrame, BindFramebuffer,
                               SetFramebuffer, GetViewerPose]\<rparr>
    else last (trace (onXRFrame s f)) = Render) \<and>
   (if 0 < frameRequests s
    then frameRequests (step s (XRFrame f)) = frameRequests s
    else step s (XRFrame f) = s)"
proof -
  assume st: "started s"
  have a: "\<exists>rest. trace (onXRFrame s f) =
      trace s @ [Log ''XR Frame'', RequestAnimationFrame, BindFramebuffer, SetFramebuffer,
                 GetViewerPose] @ rest"
    using st by (rule onXRFrame_trace)
  have b: "frameRequests (onXRFrame s f) = frameRequests s + 1"
    using st by (rule frameRequests_onXRFrame)
  have c: "viewerPose f = None \<Longrightarrow> onXRFrame s f = s\<lparr>frameRequests := frameRequests s + 1,
           trace := trace s @ [Log ''XR Frame'', RequestAnimationFrame, BindFramebuffer,
                               SetFramebuffer, GetViewerPose]\<rparr>"
    using st by (rule onXRFrame_lost)
  have d: "viewerPose f \<noteq> None \<Longrightarrow> last (trace (onXRFrame s f)) = Render"
    using st by (rule onXRFrame_renders)
  have "started (s\<lparr>frameRequests := frameRequests s - 1\<rparr>)"
    using st by (simp add: started_def)
  from frameRequests_onXRFrame [OF this, of f]
  have e: "0 < frameRequests s \<Longrightarrow> frameRequests (step s (XRFrame f)) = frameRequests s"
    by simp
  show ?thesis
    using a b c d e by simp
qed

theorem frame_reregisters_first_witness:
  "started demoSession \<and> viewerPose lostFrame = None \<and>
   onXRFrame demoSession lostFrame =
     demoSession\<lparr>frameRequests := 2,
       trace := trace demoSession @ [Log ''XR Frame'', RequestAnimationFrame, BindFramebuffer,
                                     SetFramebuffer, GetViewerPose]\<rparr> \<and>
   frameRequests (step demoSession (XRFrame lostFrame)) = 1"
proof -
  have h: "started demoSession" by (rule started_demoSession)
  have l: "viewerPose lostFrame = None" by (simp add: lostFrame_def)
  have r: "frameRequests demoSession = 1" by (simp add: demoSession_eq)
  show ?thesis
    using h l r frame_reregisters_first [OF h, of lostFrame] by simp
qed

end
